theory Spec2Isabelle
  imports Main
begin

section \<open>The build recipe (src/conanfile.py)\<close>

text \<open>
  The recipe is the class \<open>ClientServer(ConanFile)\<close>. Its base class and the helpers
  \<open>cmake_layout\<close>, \<open>CMakeDeps\<close>, \<open>CMakeToolchain\<close> and \<open>CMake\<close> belong to the Conan
  library, not to the repository. What the recipe can observe of them is modelled as
  follows: a declaration method (\<open>requires\<close>, \<open>tool_requires\<close>, \<open>test_requires\<close>)
  records its reference on the recipe object, in call order; a generator records the
  file it writes; the \<open>CMake\<close> helper reads the generator from the toolchain file
  written last and raises when there is none; a cmake command raises when the command
  fails and is recorded when it succeeds. Whatever the library or the commands it runs
  compute from the settings (the folders of \<open>cmake_layout\<close>, the generator a fresh
  \<open>CMakeToolchain\<close> starts with, whether a cmake command succeeds) is a parameter of
  the model, so every theorem holds for any such choice.
\<close>

record build_configuration =
  os :: string
  build_type :: string
  arch :: string

record folders =
  source_folder :: string
  build_folder :: string
  generators_folder :: string

datatype generated_file =
  DepsFiles
| ToolchainFile string

datatype cmake_step =
  Configure string
| Build
| Install

datatype conan_error =
  PresetsNotFound
| CommandFailed cmake_step

record conanfile =
  name :: string
  version :: string
  settings :: "string list"
  exports_sources :: "string list"
  settings_values :: build_configuration
  layout_folders :: "folders option"
  declared_requires :: "string list"
  declared_tool_requires :: "string list"
  declared_test_requires :: "string list"
  generated :: "generated_file list"
  cmake_steps :: "cmake_step list"

record conan_library =
  cmake_layout_folders :: "build_configuration \<Rightarrow> folders"
  toolchain_default_generator :: "build_configuration \<Rightarrow> string"
  cmake_command_succeeds :: "cmake_step \<Rightarrow> build_configuration \<Rightarrow> bool"

text \<open>The class attributes, on a recipe object created for the given setting values.\<close>

definition ClientServer :: "build_configuration \<Rightarrow> conanfile" where
  "ClientServer conf =
     \<lparr> name = ''client_server'',
       version = ''1.0'',
       settings = [''os'', ''build_type'', ''arch''],
       exports_sources = [''*''],
       settings_values = conf,
       layout_folders = None,
       declared_requires = [],
       declared_tool_requires = [],
       declared_test_requires = [],
       generated = [],
       cmake_steps = [] \<rparr>"

subsection \<open>The Conan interface the recipe calls\<close>

definition requires_decl :: "string \<Rightarrow> conanfile \<Rightarrow> conanfile" where
  "requires_decl ref self = self\<lparr>declared_requires := declared_requires self @ [ref]\<rparr>"

definition tool_requires :: "string \<Rightarrow> conanfile \<Rightarrow> conanfile" where
  "tool_requires ref self =
     self\<lparr>declared_tool_requires := declared_tool_requires self @ [ref]\<rparr>"

definition test_requires :: "string \<Rightarrow> conanfile \<Rightarrow> conanfile" where
  "test_requires ref self =
     self\<lparr>declared_test_requires := declared_test_requires self @ [ref]\<rparr>"

definition cmake_layout :: "conan_library \<Rightarrow> conanfile \<Rightarrow> conanfile" where
  "cmake_layout lib self =
     self\<lparr>layout_folders := Some (cmake_layout_folders lib (settings_values self))\<rparr>"

record cmake_toolchain =
  generator :: string

definition CMakeToolchain :: "conan_library \<Rightarrow> conanfile \<Rightarrow> cmake_toolchain" where
  "CMakeToolchain lib self =
     \<lparr> generator = toolchain_default_generator lib (settings_values self) \<rparr>"

definition toolchain_generate :: "cmake_toolchain \<Rightarrow> conanfile \<Rightarrow> conanfile" where
  "toolchain_generate tc self =
     self\<lparr>generated := generated self @ [ToolchainFile (generator tc)]\<rparr>"

definition deps_generate :: "conanfile \<Rightarrow> conanfile" where
  "deps_generate self = self\<lparr>generated := generated self @ [DepsFiles]\<rparr>"

fun toolchain_generators :: "generated_file list \<Rightarrow> string list" where
  "toolchain_generators [] = []"
| "toolchain_generators (DepsFiles # gs) = toolchain_generators gs"
| "toolchain_generators (ToolchainFile g # gs) = g # toolchain_generators gs"

record cmake_helper =
  helper_generator :: string

text \<open>
  \<open>CMake(self)\<close> loads what the toolchain generator wrote, and raises when nothing was
  written (the recipe built before its generators ran).
\<close>

definition CMake :: "conanfile \<Rightarrow> conan_error + cmake_helper" where
  "CMake self =
     (case toolchain_generators (generated self) of
        [] \<Rightarrow> Inl PresetsNotFound
      | g # gs \<Rightarrow> Inr \<lparr> helper_generator = last (g # gs) \<rparr>)"

definition cmake_command ::
  "conan_library \<Rightarrow> cmake_step \<Rightarrow> conanfile \<Rightarrow> conan_error + conanfile" where
  "cmake_command lib step self =
     (if cmake_command_succeeds lib step (settings_values self)
      then Inr (self\<lparr>cmake_steps := cmake_steps self @ [step]\<rparr>)
      else Inl (CommandFailed step))"

definition cmake_configure ::
  "conan_library \<Rightarrow> cmake_helper \<Rightarrow> conanfile \<Rightarrow> conan_error + conanfile" where
  "cmake_configure lib cmake self =
     cmake_command lib (Configure (helper_generator cmake)) self"

definition cmake_build ::
  "conan_library \<Rightarrow> cmake_helper \<Rightarrow> conanfile \<Rightarrow> conan_error + conanfile" where
  "cmake_build lib cmake self = cmake_command lib Build self"

definition cmake_install ::
  "conan_library \<Rightarrow> cmake_helper \<Rightarrow> conanfile \<Rightarrow> conan_error + conanfile" where
  "cmake_install lib cmake self = cmake_command lib Install self"

subsection \<open>The methods of the recipe\<close>

definition layout :: "conan_library \<Rightarrow> conanfile \<Rightarrow> conanfile" where
  "layout lib self = cmake_layout lib self"

definition build_requirements :: "conanfile \<Rightarrow> conanfile" where
  "build_requirements self =
     test_requires ''gtest/1.17.0'' (tool_requires ''cmake/4.2.0'' self)"

definition requirements :: "conanfile \<Rightarrow> conanfile" where
  "requirements self = requires_decl ''boost/1.90.0'' self"

definition generate :: "conan_library \<Rightarrow> conanfile \<Rightarrow> conanfile" where
  "generate lib self =
     (let self1 = deps_generate self;
          tc = CMakeToolchain lib self1;
          tc = tc\<lparr>generator := ''Ninja''\<rparr>
      in toolchain_generate tc self1)"

definition build :: "conan_library \<Rightarrow> conanfile \<Rightarrow> conan_error + conanfile" where
  "build lib self =
     (case CMake self of
        Inl e \<Rightarrow> Inl e
      | Inr cmake \<Rightarrow>
          (case cmake_configure lib cmake self of
             Inl e \<Rightarrow> Inl e
           | Inr self1 \<Rightarrow> cmake_build lib cmake self1))"

definition package :: "conan_library \<Rightarrow> conanfile \<Rightarrow> conan_error + conanfile" where
  "package lib self =
     (case CMake self of
        Inl e \<Rightarrow> Inl e
      | Inr cmake \<Rightarrow> cmake_install lib cmake self)"

subsection \<open>Runs of the recipe\<close>

text \<open>
  The methods in the order Conan invokes them: the declarations, the layout and the
  generators (none of which can fail in the model), then the build and the packaging,
  where the first exception ends the run.
\<close>

definition install_phase :: "conan_library \<Rightarrow> build_configuration \<Rightarrow> conanfile" where
  "install_phase lib conf =
     generate lib (layout lib (build_requirements (requirements (ClientServer conf))))"

definition run_recipe ::
  "conan_library \<Rightarrow> build_configuration \<Rightarrow> conan_error + conanfile" where
  "run_recipe lib conf =
     (case build lib (install_phase lib conf) of
        Inl e \<Rightarrow> Inl e
      | Inr self \<Rightarrow> package lib self)"

text \<open>What a run declares, apart from anything the library derives from the settings.\<close>

record recipe_declarations =
  decl_name :: string
  decl_version :: string
  decl_exports_sources :: "string list"
  decl_toolchain_generators :: "string list"

definition declarations_of :: "conanfile \<Rightarrow> recipe_declarations" where
  "declarations_of self =
     \<lparr> decl_name = name self,
       decl_version = version self,
       decl_exports_sources = exports_sources self,
       decl_toolchain_generators = toolchain_generators (generated self) \<rparr>"

text \<open>
  Two tools for saying that a method does not look at the settings. \<open>with_settings c\<close>
  puts other setting values on a recipe object. \<open>frozen_at lib c\<close> is the library
  that answers every question as \<open>lib\<close> answers it for the configuration \<open>c\<close>,
  whatever configuration it is asked about.
\<close>

definition with_settings :: "build_configuration \<Rightarrow> conanfile \<Rightarrow> conanfile" where
  "with_settings c self = self\<lparr>settings_values := c\<rparr>"

definition frozen_at :: "conan_library \<Rightarrow> build_configuration \<Rightarrow> conan_library" where
  "frozen_at lib c =
     \<lparr> cmake_layout_folders = (\<lambda>_. cmake_layout_folders lib c),
       toolchain_default_generator = (\<lambda>_. toolchain_default_generator lib c),
       cmake_command_succeeds = (\<lambda>step _. cmake_command_succeeds lib step c) \<rparr>"

section \<open>Properties of the recipe\<close>

lemma toolchain_generators_append:
  "toolchain_generators (xs @ ys) = toolchain_generators xs @ toolchain_generators ys"
  by (induction xs rule: toolchain_generators.induct) simp_all

lemma requirements_fields:
  "declared_requires (requirements self) = declared_requires self @ [''boost/1.90.0'']"
  "declared_tool_requires (requirements self) = declared_tool_requires self"
  "declared_test_requires (requirements self) = declared_test_requires self"
  by (simp_all add: requirements_def requires_decl_def)

lemma build_requirements_fields:
  "declared_requires (build_requirements self) = declared_requires self"
  "declared_tool_requires (build_requirements self) =
     declared_tool_requires self @ [''cmake/4.2.0'']"
  "declared_test_requires (build_requirements self) =
     declared_test_requires self @ [''gtest/1.17.0'']"
  by (simp_all add: build_requirements_def tool_requires_def test_requires_def)

text \<open>
  C9. On a recipe object for any build configuration, \<open>requirements()\<close> declares
  exactly the dependency boost/1.90.0 and nothing else, and \<open>build_requirements()\<close>
  declares exactly the tool requirement cmake/4.2.0 and the test requirement
  gtest/1.17.0 and no regular dependency; after both, in either order, the three lists
  are exactly these.
\<close>

theorem recipe_requirements_unconditional:
  "declared_requires (requirements (ClientServer conf)) = [''boost/1.90.0'']
   \<and> declared_tool_requires (requirements (ClientServer conf)) = []
   \<and> declared_test_requires (requirements (ClientServer conf)) = []
   \<and> declared_requires (build_requirements (ClientServer conf)) = []
   \<and> declared_tool_requires (build_requirements (ClientServer conf)) = [''cmake/4.2.0'']
   \<and> declared_test_requires (build_requirements (ClientServer conf)) = [''gtest/1.17.0'']
   \<and> requirements (build_requirements (ClientServer conf))
       = build_requirements (requirements (ClientServer conf))
   \<and> declared_requires (build_requirements (requirements (ClientServer conf)))
       = [''boost/1.90.0'']
   \<and> declared_tool_requires (build_requirements (requirements (ClientServer conf)))
       = [''cmake/4.2.0'']
   \<and> declared_test_requires (build_requirements (requirements (ClientServer conf)))
       = [''gtest/1.17.0'']"
  by (simp add: requirements_fields build_requirements_fields)
     (simp add: ClientServer_def requirements_def build_requirements_def
        requires_decl_def tool_requires_def test_requires_def)

subsection \<open>No method looks at the settings\<close>

lemma requirements_settings:
  "requirements (with_settings c self) = with_settings c (requirements self)"
  by (simp add: requirements_def requires_decl_def with_settings_def)

lemma build_requirements_settings:
  "build_requirements (with_settings c self) = with_settings c (build_requirements self)"
  by (simp add: build_requirements_def tool_requires_def test_requires_def
        with_settings_def)

lemma layout_settings:
  "layout lib (with_settings c self) = with_settings c (layout (frozen_at lib c) self)"
  by (simp add: layout_def cmake_layout_def with_settings_def frozen_at_def)

lemma generate_settings:
  "generate lib (with_settings c self) = with_settings c (generate lib' self)"
  by (simp add: generate_def deps_generate_def CMakeToolchain_def toolchain_generate_def
        with_settings_def Let_def)

lemma CMake_settings: "CMake (with_settings c self) = CMake self"
  by (simp add: CMake_def with_settings_def)

lemma cmake_command_settings:
  "cmake_command lib step (with_settings c self)
   = map_sum id (with_settings c) (cmake_command (frozen_at lib c) step self)"
  by (simp add: cmake_command_def with_settings_def frozen_at_def)

lemma build_settings:
  "build lib (with_settings c self)
   = map_sum id (with_settings c) (build (frozen_at lib c) self)"
proof (cases "CMake self")
  case (Inl e)
  then show ?thesis by (simp add: build_def CMake_settings)
next
  case (Inr cmake)
  show ?thesis
  proof (cases "cmake_command (frozen_at lib c) (Configure (helper_generator cmake)) self")
    case (Inl e)
    then show ?thesis
      using Inr by (simp add: build_def CMake_settings cmake_configure_def
          cmake_command_settings)
  next
    case conf: (Inr self1)
    have "cmake_command lib Build (with_settings c self1)
          = map_sum id (with_settings c) (cmake_command (frozen_at lib c) Build self1)"
      by (rule cmake_command_settings)
    then show ?thesis
      using Inr conf by (simp add: build_def CMake_settings cmake_configure_def
          cmake_build_def cmake_command_settings)
  qed
qed

lemma package_settings:
  "package lib (with_settings c self)
   = map_sum id (with_settings c) (package (frozen_at lib c) self)"
  by (cases "CMake self")
     (simp_all add: package_def CMake_settings cmake_install_def cmake_command_settings)

lemma install_phase_state:
  "install_phase lib conf =
     \<lparr> name = ''client_server'',
       version = ''1.0'',
       settings = [''os'', ''build_type'', ''arch''],
       exports_sources = [''*''],
       settings_values = conf,
       layout_folders = Some (cmake_layout_folders lib conf),
       declared_requires = [''boost/1.90.0''],
       declared_tool_requires = [''cmake/4.2.0''],
       declared_test_requires = [''gtest/1.17.0''],
       generated = [DepsFiles, ToolchainFile ''Ninja''],
       cmake_steps = [] \<rparr>"
  by (simp add: install_phase_def ClientServer_def requirements_def build_requirements_def
        layout_def generate_def requires_decl_def tool_requires_def test_requires_def
        cmake_layout_def deps_generate_def CMakeToolchain_def toolchain_generate_def
        Let_def)

lemma run_recipe_state:
  "run_recipe lib conf =
     (if \<not> cmake_command_succeeds lib (Configure ''Ninja'') conf
        then Inl (CommandFailed (Configure ''Ninja''))
      else if \<not> cmake_command_succeeds lib Build conf
        then Inl (CommandFailed Build)
      else if \<not> cmake_command_succeeds lib Install conf
        then Inl (CommandFailed Install)
      else Inr
        \<lparr> name = ''client_server'',
          version = ''1.0'',
          settings = [''os'', ''build_type'', ''arch''],
          exports_sources = [''*''],
          settings_values = conf,
          layout_folders = Some (cmake_layout_folders lib conf),
          declared_requires = [''boost/1.90.0''],
          declared_tool_requires = [''cmake/4.2.0''],
          declared_test_requires = [''gtest/1.17.0''],
          generated = [DepsFiles, ToolchainFile ''Ninja''],
          cmake_steps = [Configure ''Ninja'', Build, Install] \<rparr>)"
  by (simp add: run_recipe_def install_phase_state build_def package_def CMake_def
        cmake_configure_def cmake_build_def cmake_install_def cmake_command_def)

text \<open>
  C10. The recipe is deterministic with respect to the settings os, build_type and
  arch, because no method branches on them.

  Every method, on any recipe object: running it on the object with other setting
  values gives what running it on the object itself gives, with those setting values
  stored, where the library is asked about those values only. For \<open>requirements\<close>,
  \<open>build_requirements\<close> and \<open>generate\<close> the library's answers do not matter at all.

  A whole run, for every configuration and every behaviour of the library: after the
  declarations, the layout and the generators the recipe object is exactly the one
  stated, in which the configuration occurs only as the stored setting values and as
  the question put to \<open>cmake_layout\<close>; the run then ends with the first cmake command
  that fails, or with the three commands configure (for Ninja), build and install
  recorded and nothing else changed.

  So any two runs declare the same things: the name "client_server", the version "1.0",
  exports_sources ["*"], and one toolchain file, whose generator is "Ninja" whatever
  generator the library would have picked.
\<close>

theorem recipe_deterministic_in_settings:
  "requirements (with_settings c self) = with_settings c (requirements self)
   \<and> build_requirements (with_settings c self) = with_settings c (build_requirements self)
   \<and> layout lib (with_settings c self) = with_settings c (layout (frozen_at lib c) self)
   \<and> generate lib (with_settings c self) = with_settings c (generate lib' self)
   \<and> build lib (with_settings c self)
       = map_sum id (with_settings c) (build (frozen_at lib c) self)
   \<and> package lib (with_settings c self)
       = map_sum id (with_settings c) (package (frozen_at lib c) self)
   \<and> install_phase lib conf =
       \<lparr> name = ''client_server'',
         version = ''1.0'',
         settings = [''os'', ''build_type'', ''arch''],
         exports_sources = [''*''],
         settings_values = conf,
         layout_folders = Some (cmake_layout_folders lib conf),
         declared_requires = [''boost/1.90.0''],
         declared_tool_requires = [''cmake/4.2.0''],
         declared_test_requires = [''gtest/1.17.0''],
         generated = [DepsFiles, ToolchainFile ''Ninja''],
         cmake_steps = [] \<rparr>
   \<and> run_recipe lib conf =
       (if \<not> cmake_command_succeeds lib (Configure ''Ninja'') conf
          then Inl (CommandFailed (Configure ''Ninja''))
        else if \<not> cmake_command_succeeds lib Build conf
          then Inl (CommandFailed Build)
        else if \<not> cmake_command_succeeds lib Install conf
          then Inl (CommandFailed Install)
        else Inr ((install_phase lib conf)
               \<lparr>cmake_steps := [Configure ''Ninja'', Build, Install]\<rparr>))
   \<and> declarations_of (install_phase lib conf) = declarations_of (install_phase lib' conf')
   \<and> declarations_of (install_phase lib conf)
       = \<lparr> decl_name = ''client_server'', decl_version = ''1.0'',
           decl_exports_sources = [''*''], decl_toolchain_generators = [''Ninja''] \<rparr>
   \<and> generated (generate lib (ClientServer conf)) = [DepsFiles, ToolchainFile ''Ninja'']"
proof (intro conjI)
  show "requirements (with_settings c self) = with_settings c (requirements self)"
    by (rule requirements_settings)
  show "build_requirements (with_settings c self)
        = with_settings c (build_requirements self)"
    by (rule build_requirements_settings)
  show "layout lib (with_settings c self) = with_settings c (layout (frozen_at lib c) self)"
    by (rule layout_settings)
  show "generate lib (with_settings c self) = with_settings c (generate lib' self)"
    by (rule generate_settings)
  show "build lib (with_settings c self)
        = map_sum id (with_settings c) (build (frozen_at lib c) self)"
    by (rule build_settings)
  show "package lib (with_settings c self)
        = map_sum id (with_settings c) (package (frozen_at lib c) self)"
    by (rule package_settings)
  show "install_phase lib conf =
       \<lparr> name = ''client_server'',
         version = ''1.0'',
         settings = [''os'', ''build_type'', ''arch''],
         exports_sources = [''*''],
         settings_values = conf,
         layout_folders = Some (cmake_layout_folders lib conf),
         declared_requires = [''boost/1.90.0''],
         declared_tool_requires = [''cmake/4.2.0''],
         declared_test_requires = [''gtest/1.17.0''],
         generated = [DepsFiles, ToolchainFile ''Ninja''],
         cmake_steps = [] \<rparr>"
    by (rule install_phase_state)
  show "run_recipe lib conf =
       (if \<not> cmake_command_succeeds lib (Configure ''Ninja'') conf
          then Inl (CommandFailed (Configure ''Ninja''))
        else if \<not> cmake_command_succeeds lib Build conf
          then Inl (CommandFailed Build)
        else if \<not> cmake_command_succeeds lib Install conf
          then Inl (CommandFailed Install)
        else Inr ((install_phase lib conf)
               \<lparr>cmake_steps := [Configure ''Ninja'', Build, Install]\<rparr>))"
    by (simp add: run_recipe_state install_phase_state)
  show "declarations_of (install_phase lib conf)
        = declarations_of (install_phase lib' conf')"
    by (simp add: install_phase_state declarations_of_def)
  show "declarations_of (install_phase lib conf)
       = \<lparr> decl_name = ''client_server'', decl_version = ''1.0'',
           decl_exports_sources = [''*''], decl_toolchain_generators = [''Ninja''] \<rparr>"
    by (simp add: install_phase_state declarations_of_def)
  show "generated (generate lib (ClientServer conf)) = [DepsFiles, ToolchainFile ''Ninja'']"
    by (simp add: generate_def ClientServer_def deps_generate_def CMakeToolchain_def
          toolchain_generate_def Let_def)
qed

theorem recipe_deterministic_in_settings_witness:
  "run_recipe
     \<lparr> cmake_layout_folders =
         (\<lambda>c. \<lparr> source_folder = ''.'', build_folder = ''build/'' @ build_type c,
                 generators_folder = ''build/'' @ build_type c @ ''/generators'' \<rparr>),
       toolchain_default_generator = (\<lambda>c. ''default for '' @ os c),
       cmake_command_succeeds = (\<lambda>step c. True) \<rparr>
     \<lparr> os = ''Linux'', build_type = ''Release'', arch = ''x86_64'' \<rparr>
   = Inr
       \<lparr> name = ''client_server'',
         version = ''1.0'',
         settings = [''os'', ''build_type'', ''arch''],
         exports_sources = [''*''],
         settings_values = \<lparr> os = ''Linux'', build_type = ''Release'', arch = ''x86_64'' \<rparr>,
         layout_folders =
           Some \<lparr> source_folder = ''.'', build_folder = ''build/Release'',
                  generators_folder = ''build/Release/generators'' \<rparr>,
         declared_requires = [''boost/1.90.0''],
         declared_tool_requires = [''cmake/4.2.0''],
         declared_test_requires = [''gtest/1.17.0''],
         generated = [DepsFiles, ToolchainFile ''Ninja''],
         cmake_steps = [Configure ''Ninja'', Build, Install] \<rparr>
   \<and> run_recipe
       \<lparr> cmake_layout_folders =
           (\<lambda>c. \<lparr> source_folder = ''.'', build_folder = ''build/'' @ build_type c,
                   generators_folder = ''build/'' @ build_type c @ ''/generators'' \<rparr>),
         toolchain_default_generator = (\<lambda>c. ''default for '' @ os c),
         cmake_command_succeeds = (\<lambda>step c. step \<noteq> Build) \<rparr>
       \<lparr> os = ''Windows'', build_type = ''Debug'', arch = ''armv8'' \<rparr>
     = Inl (CommandFailed Build)"
  using recipe_deterministic_in_settings
      [where lib = "\<lparr> cmake_layout_folders =
           (\<lambda>c. \<lparr> source_folder = ''.'', build_folder = ''build/'' @ build_type c,
                   generators_folder = ''build/'' @ build_type c @ ''/generators'' \<rparr>),
         toolchain_default_generator = (\<lambda>c. ''default for '' @ os c),
         cmake_command_succeeds = (\<lambda>step c. True) \<rparr>"
        and conf = "\<lparr> os = ''Linux'', build_type = ''Release'', arch = ''x86_64'' \<rparr>"]
    recipe_deterministic_in_settings
      [where lib = "\<lparr> cmake_layout_folders =
           (\<lambda>c. \<lparr> source_folder = ''.'', build_folder = ''build/'' @ build_type c,
                   generators_folder = ''build/'' @ build_type c @ ''/generators'' \<rparr>),
         toolchain_default_generator = (\<lambda>c. ''default for '' @ os c),
         cmake_command_succeeds = (\<lambda>step c. step \<noteq> Build) \<rparr>"
        and conf = "\<lparr> os = ''Windows'', build_type = ''Debug'', arch = ''armv8'' \<rparr>"]
  by simp

end
